theory Spec2Isabelle
  imports Main "HOL-Library.Sublist"
begin

section \<open>The IR of the host framework, as far as the pass looks at it\<close>

text \<open>
  The pass of \<^verbatim>\<open>quantize.cc\<close> is a client of MLIR. Of an operation it inspects the
  operation type (through \<^verbatim>\<open>cast\<close>) and, through \<^verbatim>\<open>GetEntryFunctionName\<close>, something
  stored on the operation. An operation is therefore a node with its type, its attribute
  dictionary and the operations nested in it.
\<close>

datatype OpType =
    TF_XlaCallModuleOp
  | quantfork_QuantizeCastOp
  | quantfork_DequantizeCastOp
  | builtin_ModuleOp
  | OtherOp string

datatype Attribute =
    StringAttr string
  | FlatSymbolRefAttr string
  | BoolAttr bool

datatype Operation =
  Operation (getName: OpType) (getAttrs: "(string \<times> Attribute) list") (getBody: "Operation list")

text \<open>
  A typed handle such as \<^verbatim>\<open>TF::XlaCallModuleOp\<close> wraps a pointer to an operation; the
  pointer may be null, and the handle converts to \<^verbatim>\<open>bool\<close> as "not null".
\<close>

datatype XlaCallModuleOp = XlaCallModuleOp (state: "Operation option")

definition to_bool :: "XlaCallModuleOp \<Rightarrow> bool" where
  "to_bool call_op = (state call_op \<noteq> None)"

definition isa_XlaCallModuleOp :: "Operation \<Rightarrow> bool" where
  "isa_XlaCallModuleOp op = (getName op = TF_XlaCallModuleOp)"

text \<open>
  \<^verbatim>\<open>cast<TF::XlaCallModuleOp>(op)\<close> asserts \<^verbatim>\<open>isa<TF::XlaCallModuleOp>(op)\<close> and then wraps
  the address of \<^verbatim>\<open>op\<close>. The violated assertion is the only way out other than the handle.
\<close>

datatype fault = CastOfIncompatibleType

definition cast_XlaCallModuleOp :: "Operation \<Rightarrow> fault + XlaCallModuleOp" where
  "cast_XlaCallModuleOp op =
     (if isa_XlaCallModuleOp op then Inr (XlaCallModuleOp (Some op))
      else Inl CastOfIncompatibleType)"

subsection \<open>String search of \<^verbatim>\<open>llvm::StringRef\<close>\<close>

text \<open>
  \<^verbatim>\<open>StringRef::find(Str)\<close> gives the least index at which \<^verbatim>\<open>Str\<close> occurs, or
  \<^verbatim>\<open>npos\<close>; \<^verbatim>\<open>StringRef::contains(Str)\<close> is \<^verbatim>\<open>find(Str) != npos\<close>. The search is
  written here as the scan from the left; \<open>None\<close> is \<^verbatim>\<open>npos\<close>.
\<close>

fun StringRef_find_from :: "nat \<Rightarrow> string \<Rightarrow> string \<Rightarrow> nat option" where
  "StringRef_find_from i [] str = (if str = [] then Some i else None)"
| "StringRef_find_from i (c # s) str =
     (if prefix str (c # s) then Some i else StringRef_find_from (Suc i) s str)"

definition StringRef_find :: "string \<Rightarrow> string \<Rightarrow> nat option" where
  "StringRef_find s str = StringRef_find_from 0 s str"

definition StringRef_contains :: "string \<Rightarrow> string \<Rightarrow> bool" where
  "StringRef_contains s other = (StringRef_find s other \<noteq> None)"

section \<open>The rewrite patterns of the pass\<close>

text \<open>
  \<^verbatim>\<open>StableHloQuantizationBase<ConcreteT, RootOpT>\<close> is instantiated three times. The
  framework's pattern calls \<^verbatim>\<open>ConcreteT::AllowHybridQuantization\<close>, so the member
  that runs is the one found by name lookup in \<^verbatim>\<open>ConcreteT\<close>: its own where it
  declares one, the base's otherwise.
\<close>

datatype ConcreteT =
    StableHloQuantization
  | StableHloQuantizationReverse
  | StableHloQuantizationHybrid

text \<open>The second template argument; its default is \<^verbatim>\<open>quantfork::DequantizeCastOp\<close>.\<close>

fun RootOpT :: "ConcreteT \<Rightarrow> OpType" where
  "RootOpT StableHloQuantization = quantfork_DequantizeCastOp"
| "RootOpT StableHloQuantizationReverse = quantfork_QuantizeCastOp"
| "RootOpT StableHloQuantizationHybrid = quantfork_DequantizeCastOp"

definition StableHloQuantizationBase_AllowHybridQuantization :: "Operation \<Rightarrow> bool" where
  "StableHloQuantizationBase_AllowHybridQuantization op = False"

text \<open>
  \<^verbatim>\<open>GetEntryFunctionName\<close> is declared in \<^verbatim>\<open>attrs_and_constraints.h\<close>, which is not
  among the sources: it is the parameter \<open>GetEntryFunctionName\<close> below. The conjunction
  \<^verbatim>\<open>call_op && ...\<close> evaluates its right operand only for a handle that is not null.
\<close>

definition StableHloQuantizationHybrid_AllowHybridQuantization ::
    "(XlaCallModuleOp \<Rightarrow> string) \<Rightarrow> Operation \<Rightarrow> fault + bool" where
  "StableHloQuantizationHybrid_AllowHybridQuantization GetEntryFunctionName op =
     (case cast_XlaCallModuleOp op of
        Inl e \<Rightarrow> Inl e
      | Inr call_op \<Rightarrow>
          Inr (if to_bool call_op
               then StringRef_contains (GetEntryFunctionName call_op) ''dot_general''
               else False))"

fun AllowHybridQuantization ::
    "(XlaCallModuleOp \<Rightarrow> string) \<Rightarrow> ConcreteT \<Rightarrow> Operation \<Rightarrow> fault + bool" where
  "AllowHybridQuantization G StableHloQuantization op =
     Inr (StableHloQuantizationBase_AllowHybridQuantization op)"
| "AllowHybridQuantization G StableHloQuantizationReverse op =
     Inr (StableHloQuantizationBase_AllowHybridQuantization op)"
| "AllowHybridQuantization G StableHloQuantizationHybrid op =
     StableHloQuantizationHybrid_AllowHybridQuantization G op"

section \<open>Configuration records\<close>

text \<open>
  \<^verbatim>\<open>tensorflow::DataType\<close> is an enumeration declared outside the sources. The code
  names one enumerator, \<^verbatim>\<open>DT_QINT8\<close>; every other enumerator is \<open>DT_other\<close> with its
  number.
\<close>

datatype DataType = DT_QINT8 | DT_other nat

text \<open>
  Modelled from the spec: the declaration of \<^verbatim>\<open>QuantizationSpecs\<close>
  (\<^verbatim>\<open>quantization_config.h\<close>) is not among the sources. Its fields here are the options
  of the data model that belong to this record, under the names by which
  \<^verbatim>\<open>quantize.cc\<close> accesses them: the inference numeric type and the two
  numeric-verification flags.
\<close>

record QuantizationSpecs =
  inference_type :: DataType
  verify_numeric :: bool
  whole_model_verify :: bool

text \<open>
  \<^verbatim>\<open>NumericVerifySpec\<close> and \<^verbatim>\<open>QuantPassSpec\<close> are declared in
  \<^verbatim>\<open>quantization_utils.h\<close>, outside the sources. The code assigns the two fields of the
  first by name and builds the second from its two members in order.
\<close>

record NumericVerifySpec =
  verify_numeric :: bool
  whole_model_verify :: bool

record QuantPassSpec =
  numeric_verify_spec :: NumericVerifySpec
  quant_spec :: QuantizationSpecs

text \<open>
  The options of the pass. The first two are members generated from the pass declaration,
  the third is declared in the class; the explicit constructor stores its three arguments.
  The members are \<^verbatim>\<open>enable_per_channel_quantized_weight_\<close>, \<^verbatim>\<open>enable_weight_only_\<close>
  and \<^verbatim>\<open>quant_specs_\<close>; a name of a constant cannot end in an underscore here.
\<close>

record QuantizePass =
  enable_per_channel_quantized_weight :: bool
  enable_weight_only :: bool
  quant_specs :: QuantizationSpecs

definition QuantizePass_init :: "bool \<Rightarrow> bool \<Rightarrow> QuantizationSpecs \<Rightarrow> QuantizePass" where
  "QuantizePass_init per_channel_quantized_weight weight_only specs =
     \<lparr>enable_per_channel_quantized_weight = per_channel_quantized_weight,
      enable_weight_only = weight_only,
      quant_specs = specs\<rparr>"

text \<open>
  \<^verbatim>\<open>DefaultQuantizationSpecs\<close> default-constructs a record and assigns one field. The
  default-constructed record comes from the absent declaration, so it is the argument.
\<close>

definition DefaultQuantizationSpecs :: "QuantizationSpecs \<Rightarrow> QuantizationSpecs" where
  "DefaultQuantizationSpecs default_constructed =
     (let specs = default_constructed;
          specs = specs\<lparr>inference_type := DT_QINT8\<rparr>
      in specs)"

section \<open>The pass driver\<close>

text \<open>
  What \<^verbatim>\<open>runOnOperation\<close> puts into the \<^verbatim>\<open>RewritePatternSet\<close>, in order: a pattern
  class of this file instantiated with \<^verbatim>\<open>quant_params\<close>, or the patterns of one of the
  \<^verbatim>\<open>Populate...\<close> functions, which are defined outside the sources and so stand as
  one entry each, with the argument that is not the context or the set.
\<close>

datatype RewritePattern =
    QuantizationPattern ConcreteT QuantPassSpec
  | QuantizeHybridPatterns
  | QuantizeOpWithRegionPattern
  | FusedGemmStylePatterns bool
  | QuantizeSingularOpPatterns

type_synonym RewritePatternSet = "RewritePattern list"

datatype LogicalResult = Success | Failure

definition failed :: "LogicalResult \<Rightarrow> bool" where
  "failed r = (r = Failure)"

datatype Severity = Note | Warning | Error | Remark

datatype Diagnostic = Diagnostic Severity Operation string

text \<open>
  What the pass manager holds while a pass runs: the operation the pass runs on, the
  diagnostics emitted so far, and the flag that \<^verbatim>\<open>signalPassFailure\<close> sets.
\<close>

record PassExecution =
  getOperation :: Operation
  diagnostics :: "Diagnostic list"
  pass_failed :: bool

text \<open>
  \<^verbatim>\<open>applyPatternsAndFoldGreedily\<close> belongs to the framework: it rewrites the module in
  place and reports whether it converged. It is the parameter of \<open>runOnOperation\<close>.
\<close>

type_synonym GreedyDriver = "Operation \<Rightarrow> RewritePatternSet \<Rightarrow> LogicalResult \<times> Operation"

definition emitWarning :: "Operation \<Rightarrow> string \<Rightarrow> Diagnostic list \<Rightarrow> Diagnostic list" where
  "emitWarning op message ds = ds @ [Diagnostic Warning op message]"

text \<open>
  \<^verbatim>\<open>QuantizePass::runOnOperation\<close>. The result is the pattern set that was moved into the
  driver, and the state of the pass execution afterwards.
\<close>

definition runOnOperation ::
    "GreedyDriver \<Rightarrow> QuantizePass \<Rightarrow> PassExecution \<Rightarrow> RewritePatternSet \<times> PassExecution" where
  "runOnOperation applyPatternsAndFoldGreedily pass exec =
     (let module_op = getOperation exec;
          numeric_verify_spec =
            \<lparr>verify_numeric = QuantizationSpecs.verify_numeric (quant_specs pass),
             whole_model_verify = QuantizationSpecs.whole_model_verify (quant_specs pass)\<rparr>;
          quant_params =
            \<lparr>numeric_verify_spec = numeric_verify_spec, quant_spec = quant_specs pass\<rparr>;
          patterns = [];
          patterns = patterns @
            [QuantizationPattern StableHloQuantization quant_params,
             QuantizationPattern StableHloQuantizationReverse quant_params];
          patterns =
            (if enable_weight_only pass
             then (patterns @ [QuantizationPattern StableHloQuantizationHybrid quant_params])
                    @ [QuantizeHybridPatterns]
             else patterns);
          patterns = patterns @ [QuantizeOpWithRegionPattern];
          patterns = patterns @ [FusedGemmStylePatterns (enable_per_channel_quantized_weight pass)];
          patterns = patterns @ [QuantizeSingularOpPatterns];
          (result, module_op) = applyPatternsAndFoldGreedily module_op patterns;
          exec = exec\<lparr>getOperation := module_op\<rparr>
      in if failed result
         then (patterns,
               exec\<lparr>diagnostics :=
                 emitWarning module_op ''Failed to converge pattern at QuantizePass.''
                   (diagnostics exec)\<rparr>)
         else (patterns, exec))"

section \<open>The build declarations of the \<^verbatim>\<open>xla_gpu\<close> dialect\<close>

text \<open>
  The targets of \<^verbatim>\<open>xla/service/gpu/fusions/mlir/ir/BUILD\<close>, in the order of the file,
  with the attributes that name files and targets. \<^verbatim>\<open>package\<close> is not a target.
\<close>

datatype Rule = package_group | td_library | gentbl_cc_library | cc_library

datatype Files = Listed "string list" | Glob "string list"

record Target =
  rule :: Rule
  name :: string
  srcs :: Files
  hdrs :: "string list"
  tbl_outs :: "(string list \<times> string) list"
  td_file :: "string option"
  deps :: "string list"

definition xla_gpu_td_files :: Target where
  "xla_gpu_td_files =
     \<lparr>rule = td_library, name = ''xla_gpu_td_files'', srcs = Glob [''*.td''], hdrs = [],
      tbl_outs = [], td_file = None,
      deps = [''@llvm-project//mlir:CallInterfacesTdFiles'',
              ''@llvm-project//mlir:InferTypeOpInterfaceTdFiles'',
              ''@llvm-project//mlir:OpBaseTdFiles'',
              ''@llvm-project//mlir:SideEffectInterfacesTdFiles'']\<rparr>"

definition xla_gpu_dialect_inc_gen :: Target where
  "xla_gpu_dialect_inc_gen =
     \<lparr>rule = gentbl_cc_library, name = ''xla_gpu_dialect_inc_gen'', srcs = Listed [], hdrs = [],
      tbl_outs = [([''-gen-dialect-decls''], ''xla_gpu_dialect.h.inc''),
                  ([''-gen-dialect-defs''], ''xla_gpu_dialect.cc.inc'')],
      td_file = Some ''xla_gpu_dialect.td'',
      deps = ['':xla_gpu_td_files'']\<rparr>"

definition xla_gpu_ops_inc_gen :: Target where
  "xla_gpu_ops_inc_gen =
     \<lparr>rule = gentbl_cc_library, name = ''xla_gpu_ops_inc_gen'', srcs = Listed [], hdrs = [],
      tbl_outs = [([''-gen-op-decls''], ''xla_gpu_ops.h.inc''),
                  ([''-gen-op-defs''], ''xla_gpu_ops.cc.inc'')],
      td_file = Some ''xla_gpu_ops.td'',
      deps = ['':xla_gpu_td_files'']\<rparr>"

definition xla_gpu_attrs_inc_gen :: Target where
  "xla_gpu_attrs_inc_gen =
     \<lparr>rule = gentbl_cc_library, name = ''xla_gpu_attrs_inc_gen'', srcs = Listed [], hdrs = [],
      tbl_outs = [([''-gen-attrdef-decls''], ''xla_gpu_attrs.h.inc''),
                  ([''-gen-attrdef-defs''], ''xla_gpu_attrs.cc.inc'')],
      td_file = Some ''xla_gpu_attrs.td'',
      deps = ['':xla_gpu_td_files'']\<rparr>"

definition xla_gpu :: Target where
  "xla_gpu =
     \<lparr>rule = cc_library, name = ''xla_gpu'',
      srcs = Listed [''xla_gpu_attrs.cc'', ''xla_gpu_ops.cc''],
      hdrs = [''xla_gpu_attrs.h'', ''xla_gpu_ops.h''],
      tbl_outs = [], td_file = None,
      deps = ['':xla_gpu_attrs_inc_gen'',
              '':xla_gpu_dialect_inc_gen'',
              '':xla_gpu_ops_inc_gen'',
              ''//xla/service/gpu/model:indexing_analysis'',
              ''@llvm-project//llvm:Support'',
              ''@llvm-project//mlir:ArithDialect'',
              ''@llvm-project//mlir:BytecodeOpInterface'',
              ''@llvm-project//mlir:CallOpInterfaces'',
              ''@llvm-project//mlir:FuncDialect'',
              ''@llvm-project//mlir:IR'',
              ''@llvm-project//mlir:InferTypeOpInterface'',
              ''@llvm-project//mlir:InliningUtils'',
              ''@llvm-project//mlir:SideEffectInterfaces'',
              ''@llvm-project//mlir:Support'']\<rparr>"

definition friends :: Target where
  "friends =
     \<lparr>rule = package_group, name = ''friends'', srcs = Listed [], hdrs = [],
      tbl_outs = [], td_file = None, deps = []\<rparr>"

definition BUILD :: "Target list" where
  "BUILD = [friends, xla_gpu_td_files, xla_gpu_dialect_inc_gen, xla_gpu_ops_inc_gen,
            xla_gpu_attrs_inc_gen, xla_gpu]"

text \<open>
  A label \<^verbatim>\<open>:x\<close> names the target \<^verbatim>\<open>x\<close> of the same package. \<open>depends_on b x y\<close>: the
  package declares both targets and the \<^verbatim>\<open>deps\<close> of \<open>x\<close> list \<^verbatim>\<open>:y\<close>.
\<close>

fun lookup_target :: "Target list \<Rightarrow> string \<Rightarrow> Target option" where
  "lookup_target [] x = None"
| "lookup_target (t # ts) x = (if name t = x then Some t else lookup_target ts x)"

definition depends_on :: "Target list \<Rightarrow> string \<Rightarrow> string \<Rightarrow> bool" where
  "depends_on b x y =
     (case (lookup_target b x, lookup_target b y) of
        (Some t, Some u) \<Rightarrow> '':'' @ y \<in> set (deps t)
      | _ \<Rightarrow> False)"

definition rule_of :: "Target list \<Rightarrow> string \<Rightarrow> Rule option" where
  "rule_of b x = map_option rule (lookup_target b x)"

section \<open>Substring search\<close>

lemma StringRef_find_from_None:
  "StringRef_find_from i s str = None \<longleftrightarrow> \<not> sublist str s"
proof (induction s arbitrary: i)
  case Nil
  show ?case by simp
next
  case (Cons c s)
  show ?case
    using Cons.IH [of "Suc i"] by (simp add: sublist_Cons_right)
qed

lemma StringRef_contains_sublist: "StringRef_contains s str \<longleftrightarrow> sublist str s"
  using StringRef_find_from_None [of 0 s str]
  by (simp add: StringRef_contains_def StringRef_find_def)

lemma StringRef_contains_append:
  "StringRef_contains s str \<longleftrightarrow> (\<exists>pre post. s = pre @ str @ post)"
  by (simp add: StringRef_contains_sublist sublist_def)


section \<open>Eligibility for weight-only quantization\<close>

lemma cast_XlaCallModuleOp_isa:
  "isa_XlaCallModuleOp op \<Longrightarrow> cast_XlaCallModuleOp op = Inr (XlaCallModuleOp (Some op))"
  by (simp add: cast_XlaCallModuleOp_def)

lemma cast_XlaCallModuleOp_not_isa:
  "\<not> isa_XlaCallModuleOp op \<Longrightarrow> cast_XlaCallModuleOp op = Inl CastOfIncompatibleType"
  by (simp add: cast_XlaCallModuleOp_def)

lemma cast_XlaCallModuleOp_not_null:
  "cast_XlaCallModuleOp op = Inr call_op \<Longrightarrow> to_bool call_op"
  by (auto simp add: cast_XlaCallModuleOp_def to_bool_def split: if_splits)

lemma Hybrid_on_XlaCallModuleOp:
  assumes "isa_XlaCallModuleOp op"
  shows "StableHloQuantizationHybrid_AllowHybridQuantization G op =
           Inr (StringRef_contains (G (XlaCallModuleOp (Some op))) ''dot_general'')"
  using assms
  by (simp add: StableHloQuantizationHybrid_AllowHybridQuantization_def
      cast_XlaCallModuleOp_isa to_bool_def)

text \<open>
  C7. The member \<^verbatim>\<open>AllowHybridQuantization\<close> of the base pattern answers \<open>False\<close> for
  every operation, and it is the member that the variants \<^verbatim>\<open>StableHloQuantization\<close>
  and \<^verbatim>\<open>StableHloQuantizationReverse\<close> run: neither permits weight-only
  quantization of any operation, and neither can fail.
\<close>

theorem base_variants_never_allow_hybrid:
  "StableHloQuantizationBase_AllowHybridQuantization op = False
   \<and> AllowHybridQuantization G StableHloQuantization op = Inr False
   \<and> AllowHybridQuantization G StableHloQuantizationReverse op = Inr False"
  by (simp add: StableHloQuantizationBase_AllowHybridQuantization_def)

text \<open>
  C1. For an operation \<open>op\<close> that is a \<^verbatim>\<open>TF::XlaCallModuleOp\<close>, the hybrid variant's
  \<^verbatim>\<open>AllowHybridQuantization\<close> returns, and what it returns is true exactly when the
  entry function name of \<open>op\<close> has the shape \<open>pre @ ''dot_general'' @ post\<close>. Any other
  \<^verbatim>\<open>TF::XlaCallModuleOp\<close> with the same entry function name gets the same answer, whatever
  else differs between the two operations.
\<close>

theorem hybrid_allows_iff_dot_general:
  assumes "isa_XlaCallModuleOp op"
  shows "(\<exists>b. AllowHybridQuantization G StableHloQuantizationHybrid op = Inr b
            \<and> b = (\<exists>pre post. G (XlaCallModuleOp (Some op)) = pre @ ''dot_general'' @ post))
         \<and> (\<forall>op'. isa_XlaCallModuleOp op'
                \<and> G (XlaCallModuleOp (Some op')) = G (XlaCallModuleOp (Some op))
              \<longrightarrow> AllowHybridQuantization G StableHloQuantizationHybrid op'
                    = AllowHybridQuantization G StableHloQuantizationHybrid op)"
proof (intro conjI allI impI)
  show "\<exists>b. AllowHybridQuantization G StableHloQuantizationHybrid op = Inr b
          \<and> b = (\<exists>pre post. G (XlaCallModuleOp (Some op)) = pre @ ''dot_general'' @ post)"
    using assms by (simp add: Hybrid_on_XlaCallModuleOp StringRef_contains_append)
next
  fix op'
  assume same: "isa_XlaCallModuleOp op'
    \<and> G (XlaCallModuleOp (Some op')) = G (XlaCallModuleOp (Some op))"
  then have "AllowHybridQuantization G StableHloQuantizationHybrid op' =
      Inr (StringRef_contains (G (XlaCallModuleOp (Some op))) ''dot_general'')"
    by (simp add: Hybrid_on_XlaCallModuleOp)
  with assms show "AllowHybridQuantization G StableHloQuantizationHybrid op'
      = AllowHybridQuantization G StableHloQuantizationHybrid op"
    by (simp add: Hybrid_on_XlaCallModuleOp)
qed

theorem hybrid_allows_iff_dot_general_witness:
  "isa_XlaCallModuleOp
     (Operation TF_XlaCallModuleOp
        [(''_entry_function'', FlatSymbolRefAttr ''composite_dot_general_fn_1'')] [])
   \<and> AllowHybridQuantization
        (\<lambda>call_op. case state call_op of
            None \<Rightarrow> []
          | Some op \<Rightarrow>
              (case map_of (getAttrs op) ''_entry_function'' of
                 Some (FlatSymbolRefAttr f) \<Rightarrow> f
               | _ \<Rightarrow> []))
        StableHloQuantizationHybrid
        (Operation TF_XlaCallModuleOp
           [(''_entry_function'', FlatSymbolRefAttr ''composite_dot_general_fn_1'')] [])
      = Inr True
   \<and> (\<exists>pre post. ''composite_dot_general_fn_1'' = pre @ ''dot_general'' @ post)
   \<and> AllowHybridQuantization
        (\<lambda>call_op. case state call_op of
            None \<Rightarrow> []
          | Some op \<Rightarrow>
              (case map_of (getAttrs op) ''_entry_function'' of
                 Some (FlatSymbolRefAttr f) \<Rightarrow> f
               | _ \<Rightarrow> []))
        StableHloQuantizationHybrid
        (Operation TF_XlaCallModuleOp
           [(''_entry_function'', FlatSymbolRefAttr ''composite_dot_general_fn_1''),
            (''_original_entry_function'', StringAttr ''composite_conv_fn_1'')]
           [Operation (OtherOp ''stablehlo.convolution'') [] []])
      = Inr True"
  using hybrid_allows_iff_dot_general
    [of "Operation TF_XlaCallModuleOp
           [(''_entry_function'', FlatSymbolRefAttr ''composite_dot_general_fn_1'')] []"
        "\<lambda>call_op. case state call_op of
            None \<Rightarrow> []
          | Some op \<Rightarrow>
              (case map_of (getAttrs op) ''_entry_function'' of
                 Some (FlatSymbolRefAttr f) \<Rightarrow> f
               | _ \<Rightarrow> [])"]
  by (simp add: isa_XlaCallModuleOp_def
      StableHloQuantizationHybrid_AllowHybridQuantization_def cast_XlaCallModuleOp_def
      to_bool_def StringRef_contains_def StringRef_find_def)

text \<open>
  C5. The hybrid variant's \<^verbatim>\<open>AllowHybridQuantization\<close> has a result only on a
  \<^verbatim>\<open>TF::XlaCallModuleOp\<close>: on an operation of that type the cast gives a handle that
  is not null and the result is the substring test alone; on any other operation the
  cast's assertion is violated and there is no result. No operation makes the cast give a
  null handle, so the test of \<^verbatim>\<open>call_op\<close> never decides anything: the function is
  equal to itself without that test.
\<close>

theorem hybrid_cast_precondition:
  "(isa_XlaCallModuleOp op \<longrightarrow>
      (\<exists>call_op. cast_XlaCallModuleOp op = Inr call_op \<and> to_bool call_op
         \<and> StableHloQuantizationHybrid_AllowHybridQuantization G op =
             Inr (StringRef_contains (G call_op) ''dot_general'')))
   \<and> (\<not> isa_XlaCallModuleOp op \<longrightarrow>
        cast_XlaCallModuleOp op = Inl CastOfIncompatibleType
        \<and> StableHloQuantizationHybrid_AllowHybridQuantization G op = Inl CastOfIncompatibleType)
   \<and> (\<forall>call_op. cast_XlaCallModuleOp op = Inr call_op \<longrightarrow> to_bool call_op)
   \<and> StableHloQuantizationHybrid_AllowHybridQuantization G op =
       (case cast_XlaCallModuleOp op of
          Inl e \<Rightarrow> Inl e
        | Inr call_op \<Rightarrow> Inr (StringRef_contains (G call_op) ''dot_general''))"
proof (intro conjI impI allI)
  assume isa: "isa_XlaCallModuleOp op"
  have "to_bool (XlaCallModuleOp (Some op))"
    by (simp add: to_bool_def)
  with isa show "\<exists>call_op. cast_XlaCallModuleOp op = Inr call_op \<and> to_bool call_op
         \<and> StableHloQuantizationHybrid_AllowHybridQuantization G op =
             Inr (StringRef_contains (G call_op) ''dot_general'')"
    by (simp add: cast_XlaCallModuleOp_isa Hybrid_on_XlaCallModuleOp)
next
  assume "\<not> isa_XlaCallModuleOp op"
  then show "cast_XlaCallModuleOp op = Inl CastOfIncompatibleType"
    by (rule cast_XlaCallModuleOp_not_isa)
next
  assume "\<not> isa_XlaCallModuleOp op"
  then show "StableHloQuantizationHybrid_AllowHybridQuantization G op = Inl CastOfIncompatibleType"
    by (simp add: StableHloQuantizationHybrid_AllowHybridQuantization_def
        cast_XlaCallModuleOp_not_isa)
next
  fix call_op
  assume "cast_XlaCallModuleOp op = Inr call_op"
  then show "to_bool call_op"
    by (rule cast_XlaCallModuleOp_not_null)
next
  show "StableHloQuantizationHybrid_AllowHybridQuantization G op =
       (case cast_XlaCallModuleOp op of
          Inl e \<Rightarrow> Inl e
        | Inr call_op \<Rightarrow> Inr (StringRef_contains (G call_op) ''dot_general''))"
    by (cases "cast_XlaCallModuleOp op")
      (simp_all add: StableHloQuantizationHybrid_AllowHybridQuantization_def
        cast_XlaCallModuleOp_not_null)
qed

theorem hybrid_cast_precondition_witness:
  "isa_XlaCallModuleOp (Operation TF_XlaCallModuleOp [] [])
   \<and> (\<exists>call_op. cast_XlaCallModuleOp (Operation TF_XlaCallModuleOp [] []) = Inr call_op
         \<and> to_bool call_op
         \<and> StableHloQuantizationHybrid_AllowHybridQuantization (\<lambda>call_op. ''composite_dot_general_fn_2'')
             (Operation TF_XlaCallModuleOp [] []) = Inr True)
   \<and> \<not> isa_XlaCallModuleOp (Operation quantfork_DequantizeCastOp [] [])
   \<and> StableHloQuantizationHybrid_AllowHybridQuantization (\<lambda>call_op. ''composite_dot_general_fn_2'')
        (Operation quantfork_DequantizeCastOp [] []) = Inl CastOfIncompatibleType"
  using
    hybrid_cast_precondition
      [of "Operation TF_XlaCallModuleOp [] []" "\<lambda>call_op. ''composite_dot_general_fn_2''"]
    hybrid_cast_precondition
      [of "Operation quantfork_DequantizeCastOp [] []" "\<lambda>call_op. ''composite_dot_general_fn_2''"]
  by (simp add: isa_XlaCallModuleOp_def cast_XlaCallModuleOp_def to_bool_def
      StringRef_contains_def StringRef_find_def)

section \<open>Running the pass\<close>

lemma runOnOperation_unfold:
  "runOnOperation D pass exec =
     (let quant_params =
            \<lparr>numeric_verify_spec =
               \<lparr>verify_numeric = QuantizationSpecs.verify_numeric (quant_specs pass),
                whole_model_verify = QuantizationSpecs.whole_model_verify (quant_specs pass)\<rparr>,
             quant_spec = quant_specs pass\<rparr>;
          patterns =
            [QuantizationPattern StableHloQuantization quant_params,
             QuantizationPattern StableHloQuantizationReverse quant_params]
            @ (if enable_weight_only pass
               then [QuantizationPattern StableHloQuantizationHybrid quant_params,
                     QuantizeHybridPatterns]
               else [])
            @ [QuantizeOpWithRegionPattern,
               FusedGemmStylePatterns (enable_per_channel_quantized_weight pass),
               QuantizeSingularOpPatterns];
          result = fst (D (getOperation exec) patterns);
          module_op = snd (D (getOperation exec) patterns)
      in (patterns,
          exec\<lparr>getOperation := module_op,
               diagnostics := diagnostics exec @
                 (if failed result
                  then [Diagnostic Warning module_op ''Failed to converge pattern at QuantizePass.'']
                  else [])\<rparr>))"
  by (simp add: runOnOperation_def Let_def emitWarning_def split: prod.split)

lemma runOnOperation_patterns:
  "fst (runOnOperation D pass exec) =
     [QuantizationPattern StableHloQuantization
        \<lparr>numeric_verify_spec =
           \<lparr>verify_numeric = QuantizationSpecs.verify_numeric (quant_specs pass),
            whole_model_verify = QuantizationSpecs.whole_model_verify (quant_specs pass)\<rparr>,
         quant_spec = quant_specs pass\<rparr>,
      QuantizationPattern StableHloQuantizationReverse
        \<lparr>numeric_verify_spec =
           \<lparr>verify_numeric = QuantizationSpecs.verify_numeric (quant_specs pass),
            whole_model_verify = QuantizationSpecs.whole_model_verify (quant_specs pass)\<rparr>,
         quant_spec = quant_specs pass\<rparr>]
     @ (if enable_weight_only pass
        then [QuantizationPattern StableHloQuantizationHybrid
                \<lparr>numeric_verify_spec =
                   \<lparr>verify_numeric = QuantizationSpecs.verify_numeric (quant_specs pass),
                    whole_model_verify =
                      QuantizationSpecs.whole_model_verify (quant_specs pass)\<rparr>,
                 quant_spec = quant_specs pass\<rparr>,
              QuantizeHybridPatterns]
        else [])
     @ [QuantizeOpWithRegionPattern,
        FusedGemmStylePatterns (enable_per_channel_quantized_weight pass),
        QuantizeSingularOpPatterns]"
  by (simp add: runOnOperation_unfold Let_def)

lemma runOnOperation_state:
  "snd (runOnOperation D pass exec) =
     exec\<lparr>getOperation := snd (D (getOperation exec) (fst (runOnOperation D pass exec))),
          diagnostics := diagnostics exec @
            (if failed (fst (D (getOperation exec) (fst (runOnOperation D pass exec))))
             then [Diagnostic Warning
                     (snd (D (getOperation exec) (fst (runOnOperation D pass exec))))
                     ''Failed to converge pattern at QuantizePass.'']
             else [])\<rparr>"
  by (simp add: runOnOperation_unfold Let_def)

lemma QuantizationSpecs_eq_iff:
  "(q = (q' :: QuantizationSpecs)) =
     (inference_type q = inference_type q'
      \<and> QuantizationSpecs.verify_numeric q = QuantizationSpecs.verify_numeric q'
      \<and> QuantizationSpecs.whole_model_verify q = QuantizationSpecs.whole_model_verify q')"
  by (cases q, cases q') auto

text \<open>
  C2. For every driver, configuration and state of the pass execution,
  \<^verbatim>\<open>runOnOperation\<close> adds the warning \<^verbatim>\<open>Failed to converge pattern at QuantizePass.\<close>, on
  the module, to the diagnostics exactly when the driver reports failure, and adds
  nothing when it reports success. Either way the module the driver left is kept and the
  failure flag of the pass is what it was: the pass does not signal failure.
\<close>

theorem warning_iff_not_converged:
  "(diagnostics (snd (runOnOperation D pass exec)) =
      diagnostics exec @
        [Diagnostic Warning (getOperation (snd (runOnOperation D pass exec)))
           ''Failed to converge pattern at QuantizePass.''])
     = failed (fst (D (getOperation exec) (fst (runOnOperation D pass exec))))
   \<and> (diagnostics (snd (runOnOperation D pass exec)) = diagnostics exec)
     = (\<not> failed (fst (D (getOperation exec) (fst (runOnOperation D pass exec)))))
   \<and> getOperation (snd (runOnOperation D pass exec)) =
       snd (D (getOperation exec) (fst (runOnOperation D pass exec)))
   \<and> pass_failed (snd (runOnOperation D pass exec)) = pass_failed exec"
proof -
  let ?r = "D (getOperation exec) (fst (runOnOperation D pass exec))"
  show ?thesis
    by (cases "failed (fst ?r)") (simp_all add: runOnOperation_state [of D pass exec])
qed

text \<open>
  C3. For every configuration the pattern set handed to the driver holds the full variant
  (root: the dequantize cast) and the reverse variant (root: the quantize cast), both
  built from the same parameters. It holds the hybrid variant exactly when
  \<^verbatim>\<open>enable_weight_only_\<close> is set, and the patterns of
  \<^verbatim>\<open>PopulateQuantizeHybridPatterns\<close> exactly when it is set.
\<close>

theorem variants_registered:
  "(\<exists>quant_params.
       QuantizationPattern StableHloQuantization quant_params
         \<in> set (fst (runOnOperation D pass exec))
     \<and> QuantizationPattern StableHloQuantizationReverse quant_params
         \<in> set (fst (runOnOperation D pass exec)))
   \<and> RootOpT StableHloQuantization = quantfork_DequantizeCastOp
   \<and> RootOpT StableHloQuantizationReverse = quantfork_QuantizeCastOp
   \<and> (\<exists>quant_params.
         QuantizationPattern StableHloQuantizationHybrid quant_params
           \<in> set (fst (runOnOperation D pass exec)))
       = enable_weight_only pass
   \<and> (QuantizeHybridPatterns \<in> set (fst (runOnOperation D pass exec)))
       = enable_weight_only pass"
  by (simp add: runOnOperation_patterns)

text \<open>
  C4. The options of the pass are the three values its constructor stores: the
  per-channel flag, the weight-only flag and the \<^verbatim>\<open>QuantizationSpecs\<close> record. Every
  pattern of this file that \<^verbatim>\<open>runOnOperation\<close> registers gets parameters whose
  \<^verbatim>\<open>NumericVerifySpec\<close> carries \<^verbatim>\<open>verify_numeric\<close> and \<^verbatim>\<open>whole_model_verify\<close> of
  \<^verbatim>\<open>quant_specs_\<close> unchanged, next to \<^verbatim>\<open>quant_specs_\<close> itself. The pattern set is
  determined by exactly the five options of the data model: two runs hand over the same
  pattern set if and only if they agree on the per-channel flag, the weight-only flag,
  the inference type and the two numeric-verification flags, whatever the module, the
  driver and the state of the execution are.
\<close>

theorem configuration_read_and_forwarded:
  "enable_per_channel_quantized_weight (QuantizePass_init per_channel weight_only specs)
     = per_channel
   \<and> enable_weight_only (QuantizePass_init per_channel weight_only specs) = weight_only
   \<and> quant_specs (QuantizePass_init per_channel weight_only specs) = specs
   \<and> (\<exists>quant_params.
         QuantizationPattern StableHloQuantization quant_params
           \<in> set (fst (runOnOperation D pass exec)))
   \<and> (\<forall>variant quant_params.
         QuantizationPattern variant quant_params \<in> set (fst (runOnOperation D pass exec))
         \<longrightarrow> NumericVerifySpec.verify_numeric (numeric_verify_spec quant_params)
               = QuantizationSpecs.verify_numeric (quant_specs pass)
             \<and> NumericVerifySpec.whole_model_verify (numeric_verify_spec quant_params)
               = QuantizationSpecs.whole_model_verify (quant_specs pass)
             \<and> quant_spec quant_params = quant_specs pass)
   \<and> (fst (runOnOperation D pass exec) = fst (runOnOperation D' pass' exec'))
       = (enable_per_channel_quantized_weight pass = enable_per_channel_quantized_weight pass'
          \<and> enable_weight_only pass = enable_weight_only pass'
          \<and> inference_type (quant_specs pass) = inference_type (quant_specs pass')
          \<and> QuantizationSpecs.verify_numeric (quant_specs pass)
              = QuantizationSpecs.verify_numeric (quant_specs pass')
          \<and> QuantizationSpecs.whole_model_verify (quant_specs pass)
              = QuantizationSpecs.whole_model_verify (quant_specs pass'))"
proof (intro conjI allI impI)
  fix variant quant_params
  assume "QuantizationPattern variant quant_params \<in> set (fst (runOnOperation D pass exec))"
  then have qp: "quant_params =
      \<lparr>numeric_verify_spec =
         \<lparr>verify_numeric = QuantizationSpecs.verify_numeric (quant_specs pass),
          whole_model_verify = QuantizationSpecs.whole_model_verify (quant_specs pass)\<rparr>,
       quant_spec = quant_specs pass\<rparr>"
    by (auto simp add: runOnOperation_patterns split: if_splits)
  show "NumericVerifySpec.verify_numeric (numeric_verify_spec quant_params)
      = QuantizationSpecs.verify_numeric (quant_specs pass)"
    by (simp add: qp)
  show "NumericVerifySpec.whole_model_verify (numeric_verify_spec quant_params)
      = QuantizationSpecs.whole_model_verify (quant_specs pass)"
    by (simp add: qp)
  show "quant_spec quant_params = quant_specs pass"
    by (simp add: qp)
next
  show "(fst (runOnOperation D pass exec) = fst (runOnOperation D' pass' exec'))
       = (enable_per_channel_quantized_weight pass = enable_per_channel_quantized_weight pass'
          \<and> enable_weight_only pass = enable_weight_only pass'
          \<and> inference_type (quant_specs pass) = inference_type (quant_specs pass')
          \<and> QuantizationSpecs.verify_numeric (quant_specs pass)
              = QuantizationSpecs.verify_numeric (quant_specs pass')
          \<and> QuantizationSpecs.whole_model_verify (quant_specs pass)
              = QuantizationSpecs.whole_model_verify (quant_specs pass'))"
    by (auto simp add: runOnOperation_patterns QuantizationSpecs_eq_iff [of "quant_specs pass"])
qed (simp_all add: QuantizePass_init_def runOnOperation_patterns)

theorem configuration_read_and_forwarded_witness:
  "QuantizationPattern StableHloQuantizationHybrid
      \<lparr>numeric_verify_spec = \<lparr>verify_numeric = True, whole_model_verify = False\<rparr>,
       quant_spec = \<lparr>inference_type = DT_QINT8, verify_numeric = True,
                     whole_model_verify = False\<rparr>\<rparr>
     \<in> set (fst (runOnOperation (\<lambda>module_op patterns. (Failure, module_op))
                 (QuantizePass_init False True
                    \<lparr>inference_type = DT_QINT8, verify_numeric = True,
                     whole_model_verify = False\<rparr>)
                 \<lparr>getOperation = Operation builtin_ModuleOp [] [], diagnostics = [],
                  pass_failed = False\<rparr>))
   \<and> QuantizationSpecs.verify_numeric
        (quant_specs (QuantizePass_init False True
           \<lparr>inference_type = DT_QINT8, verify_numeric = True, whole_model_verify = False\<rparr>))
   \<and> fst (runOnOperation (\<lambda>module_op patterns. (Failure, module_op))
            (QuantizePass_init False True
               \<lparr>inference_type = DT_QINT8, verify_numeric = True, whole_model_verify = False\<rparr>)
            \<lparr>getOperation = Operation builtin_ModuleOp [] [], diagnostics = [],
             pass_failed = False\<rparr>)
       \<noteq> fst (runOnOperation (\<lambda>module_op patterns. (Failure, module_op))
            (QuantizePass_init False True
               \<lparr>inference_type = DT_other 1, verify_numeric = True, whole_model_verify = False\<rparr>)
            \<lparr>getOperation = Operation builtin_ModuleOp [] [], diagnostics = [],
             pass_failed = False\<rparr>)"
  using configuration_read_and_forwarded
    [of False True
        "\<lparr>inference_type = DT_QINT8, verify_numeric = True, whole_model_verify = False\<rparr>"
        "\<lambda>module_op patterns. (Failure, module_op)"
        "QuantizePass_init False True
           \<lparr>inference_type = DT_QINT8, verify_numeric = True, whole_model_verify = False\<rparr>"
        "\<lparr>getOperation = Operation builtin_ModuleOp [] [], diagnostics = [],
          pass_failed = False\<rparr>"
        "\<lambda>module_op patterns. (Failure, module_op)"
        "QuantizePass_init False True
           \<lparr>inference_type = DT_other 1, verify_numeric = True, whole_model_verify = False\<rparr>"
        "\<lparr>getOperation = Operation builtin_ModuleOp [] [], diagnostics = [],
          pass_failed = False\<rparr>"]
  by (simp add: QuantizePass_init_def runOnOperation_patterns)

text \<open>
  C6. \<^verbatim>\<open>DefaultQuantizationSpecs\<close> returns the default-constructed record with
  \<^verbatim>\<open>inference_type\<close> set to \<^verbatim>\<open>DT_QINT8\<close>; the other fields are those of the
  default-constructed record.
\<close>

theorem DefaultQuantizationSpecs_fields:
  "inference_type (DefaultQuantizationSpecs default_constructed) = DT_QINT8
   \<and> QuantizationSpecs.verify_numeric (DefaultQuantizationSpecs default_constructed)
       = QuantizationSpecs.verify_numeric default_constructed
   \<and> QuantizationSpecs.whole_model_verify (DefaultQuantizationSpecs default_constructed)
       = QuantizationSpecs.whole_model_verify default_constructed
   \<and> DefaultQuantizationSpecs default_constructed
       = default_constructed\<lparr>inference_type := DT_QINT8\<rparr>"
  by (simp add: DefaultQuantizationSpecs_def)

section \<open>Dependency edges of the build declarations\<close>

text \<open>
  C8. In the build declarations the \<^verbatim>\<open>cc_library\<close> target \<^verbatim>\<open>xla_gpu\<close> lists each of
  the three \<^verbatim>\<open>gentbl_cc_library\<close> targets \<^verbatim>\<open>xla_gpu_dialect_inc_gen\<close>,
  \<^verbatim>\<open>xla_gpu_ops_inc_gen\<close> and \<^verbatim>\<open>xla_gpu_attrs_inc_gen\<close> among its dependencies, and
  each of the three lists the \<^verbatim>\<open>td_library\<close> target \<^verbatim>\<open>xla_gpu_td_files\<close>.
\<close>

theorem xla_gpu_dependency_edges:
  "depends_on BUILD ''xla_gpu'' ''xla_gpu_dialect_inc_gen''
   \<and> depends_on BUILD ''xla_gpu'' ''xla_gpu_ops_inc_gen''
   \<and> depends_on BUILD ''xla_gpu'' ''xla_gpu_attrs_inc_gen''
   \<and> depends_on BUILD ''xla_gpu_dialect_inc_gen'' ''xla_gpu_td_files''
   \<and> depends_on BUILD ''xla_gpu_ops_inc_gen'' ''xla_gpu_td_files''
   \<and> depends_on BUILD ''xla_gpu_attrs_inc_gen'' ''xla_gpu_td_files''
   \<and> rule_of BUILD ''xla_gpu'' = Some cc_library
   \<and> rule_of BUILD ''xla_gpu_dialect_inc_gen'' = Some gentbl_cc_library
   \<and> rule_of BUILD ''xla_gpu_ops_inc_gen'' = Some gentbl_cc_library
   \<and> rule_of BUILD ''xla_gpu_attrs_inc_gen'' = Some gentbl_cc_library
   \<and> rule_of BUILD ''xla_gpu_td_files'' = Some td_library"
  by (simp add: depends_on_def rule_of_def BUILD_def friends_def xla_gpu_td_files_def
      xla_gpu_dialect_inc_gen_def xla_gpu_ops_inc_gen_def xla_gpu_attrs_inc_gen_def xla_gpu_def)

end
